theory Spec2Isabelle
  imports Complex_Main
begin

section \<open>The source program: code_implementation_5_3.py\<close>

text \<open>
  A go-to-goal controller for an omnidirectional robot, filtered by a one-constraint
  quadratic program and integrated by explicit Euler steps. The program computes in
  IEEE double precision. The embedding keeps the special values of that arithmetic and
  leaves out its rounding: a number of the program is a real, an infinity or \<open>nan\<close>, and
  every operation on finite numbers is exact. With exact operations no overflow arises.
\<close>

subsection \<open>Numbers\<close>

datatype fl = Fin real | PInf | NInf | NaN

text \<open>
  The operations follow IEEE 754, as numpy applies them to \<open>float64\<close> (a division by
  zero gives an infinity or \<open>nan\<close> and a warning, never an exception). Zero has no sign
  here; a zero divisor counts as \<open>+0.0\<close>, which is what the sum \<open>0 + vy\<close> of line 95 is
  whenever it is zero.
\<close>

fun fneg :: "fl \<Rightarrow> fl" where
  "fneg (Fin a) = Fin (- a)"
| "fneg PInf = NInf"
| "fneg NInf = PInf"
| "fneg NaN = NaN"

fun fadd :: "fl \<Rightarrow> fl \<Rightarrow> fl" where
  "fadd (Fin a) (Fin b) = Fin (a + b)"
| "fadd NaN y = NaN"
| "fadd x NaN = NaN"
| "fadd PInf NInf = NaN"
| "fadd NInf PInf = NaN"
| "fadd PInf y = PInf"
| "fadd x PInf = PInf"
| "fadd NInf y = NInf"
| "fadd x NInf = NInf"

definition fsub :: "fl \<Rightarrow> fl \<Rightarrow> fl" where
  "fsub x y = fadd x (fneg y)"

fun fmul :: "fl \<Rightarrow> fl \<Rightarrow> fl" where
  "fmul (Fin a) (Fin b) = Fin (a * b)"
| "fmul NaN y = NaN"
| "fmul x NaN = NaN"
| "fmul (Fin a) y = (if a = 0 then NaN else if (0 < a) = (y = PInf) then PInf else NInf)"
| "fmul x (Fin b) = (if b = 0 then NaN else if (0 < b) = (x = PInf) then PInf else NInf)"
| "fmul x y = (if x = y then PInf else NInf)"

fun fdiv :: "fl \<Rightarrow> fl \<Rightarrow> fl" where
  "fdiv (Fin a) (Fin b) =
     (if b \<noteq> 0 then Fin (a / b) else if a = 0 then NaN else if 0 < a then PInf else NInf)"
| "fdiv NaN y = NaN"
| "fdiv x NaN = NaN"
| "fdiv (Fin a) y = Fin 0"
| "fdiv x (Fin b) = (if (0 \<le> b) = (x = PInf) then PInf else NInf)"
| "fdiv x y = NaN"

text \<open>\<open>x ** 2\<close>, \<open>np.sqrt\<close> and \<open>np.exp\<close>.\<close>

fun fpow2 :: "fl \<Rightarrow> fl" where
  "fpow2 (Fin a) = Fin (a\<^sup>2)"
| "fpow2 NaN = NaN"
| "fpow2 x = PInf"

fun fsqrt :: "fl \<Rightarrow> fl" where
  "fsqrt (Fin a) = (if 0 \<le> a then Fin (sqrt a) else NaN)"
| "fsqrt PInf = PInf"
| "fsqrt x = NaN"

fun fexp :: "fl \<Rightarrow> fl" where
  "fexp (Fin a) = Fin (exp a)"
| "fexp PInf = PInf"
| "fexp NInf = Fin 0"
| "fexp NaN = NaN"

text \<open>
  \<open>%\<close> takes the sign of the divisor: on finite numbers
  \<open>x % m = x - m * floor (x / m)\<close>.
\<close>

definition py_mod :: "real \<Rightarrow> real \<Rightarrow> real" where
  "py_mod x m = x - m * of_int \<lfloor>x / m\<rfloor>"

fun fmod :: "fl \<Rightarrow> fl \<Rightarrow> fl" where
  "fmod (Fin a) (Fin m) = (if m = 0 then NaN else Fin (py_mod a m))"
| "fmod (Fin a) PInf = (if 0 \<le> a then Fin a else PInf)"
| "fmod (Fin a) NInf = (if a \<le> 0 then Fin a else NInf)"
| "fmod x y = NaN"

text \<open>\<open>np.min\<close> of two numbers returns \<open>nan\<close> when one of them is \<open>nan\<close>.\<close>

fun fmin :: "fl \<Rightarrow> fl \<Rightarrow> fl" where
  "fmin (Fin a) (Fin b) = Fin (min a b)"
| "fmin NaN y = NaN"
| "fmin x NaN = NaN"
| "fmin NInf y = NInf"
| "fmin x NInf = NInf"
| "fmin PInf y = y"
| "fmin x PInf = x"

text \<open>\<open>x >= y\<close>: every comparison with \<open>nan\<close> is false.\<close>

fun fge :: "fl \<Rightarrow> fl \<Rightarrow> bool" where
  "fge (Fin a) (Fin b) = (b \<le> a)"
| "fge NaN y = False"
| "fge x NaN = False"
| "fge PInf y = True"
| "fge x NInf = True"
| "fge x y = False"

text \<open>
  A numpy array of length 2 or 3 is a pair or a triple. The arrays that the program
  never writes (\<open>init_state\<close>, \<open>obstacle_state\<close>, \<open>desired_state\<close>) and its scalar
  constants are finite literals and are reals; the arrays that it computes hold \<open>fl\<close>.
\<close>

type_synonym vec2 = "real \<times> real"
type_synonym vec3 = "real \<times> real \<times> real"
type_synonym mat2 = "vec2 \<times> vec2"
type_synonym fvec2 = "fl \<times> fl"
type_synonym fvec3 = "fl \<times> fl \<times> fl"

subsection \<open>Array access\<close>

fun at0 :: "'a \<times> 'a \<times> 'a \<Rightarrow> 'a" where
  "at0 (a, b, c) = a"

fun at1 :: "'a \<times> 'a \<times> 'a \<Rightarrow> 'a" where
  "at1 (a, b, c) = b"

fun at2 :: "'a \<times> 'a \<times> 'a \<Rightarrow> 'a" where
  "at2 (a, b, c) = c"

text \<open>The slice \<open>v[:2]\<close>, and a literal array as an array of numbers.\<close>

fun take2 :: "'a \<times> 'a \<times> 'a \<Rightarrow> 'a \<times> 'a" where
  "take2 (a, b, c) = (a, b)"

fun array :: "vec3 \<Rightarrow> fvec3" where
  "array (a, b, c) = (Fin a, Fin b, Fin c)"

text \<open>\<open>np.linalg.norm\<close> of a planar vector.\<close>

fun norm2 :: "fvec2 \<Rightarrow> fl" where
  "norm2 (a, b) = fsqrt (fadd (fpow2 a) (fpow2 b))"

subsection \<open>Constants and settings (lines 6 to 24)\<close>

definition Ts :: real where
  "Ts = 0.01"

definition t_max :: real where
  "t_max = pi * 3"

definition init_state :: vec3 where
  "init_state = (- 2, - 0.5, 0)"

definition obstacle_state :: vec3 where
  "obstacle_state = (0, 0, 0.5)"

definition v_trans_max :: real where
  "v_trans_max = 0.5"

definition v_rot_max :: real where
  "v_rot_max = 5"

definition robot_radius :: real where
  "robot_radius = 0.21"

definition d_safe :: real where
  "d_safe = at2 obstacle_state + robot_radius + 0.001"

definition beta :: real where
  "beta = 5"

definition gamma :: real where
  "gamma = 10"

text \<open>
  \<open>sim_iter = round(t_max / Ts)\<close>. Python rounds halves to even and HOL rounds them up;
  the two agree here because \<open>300 * pi\<close> is no half-integer.
\<close>

definition sim_iter :: nat where
  "sim_iter = nat (round (t_max / Ts))"

definition desired_state :: vec3 where
  "desired_state = (2, 1, 0)"

subsection \<open>Heading wrap (lines 70 and 115)\<close>

definition wrap_angle :: "fl \<Rightarrow> fl" where
  "wrap_angle a = fsub (fmod (fadd a (Fin pi)) (Fin (2 * pi))) (Fin pi)"

subsection \<open>Go-to-goal law (lines 69 to 74)\<close>

definition error_of :: "fvec3 \<Rightarrow> fvec3" where
  "error_of rs =
     (fsub (Fin (at0 desired_state)) (at0 rs), fsub (Fin (at1 desired_state)) (at1 rs),
      wrap_angle (fsub (Fin (at2 desired_state)) (at2 rs)))"

definition error_norm :: "fvec3 \<Rightarrow> fl" where
  "error_norm rs = norm2 (take2 (error_of rs))"

definition K_g :: "fl \<Rightarrow> fl" where
  "K_g r =
     fdiv (fmul (Fin v_trans_max) (fsub (Fin 1) (fexp (fmul (Fin (- beta)) r))))
          (fadd r (Fin (1 / 10 ^ 10)))"

definition u_gtg :: "fvec3 \<Rightarrow> fvec3" where
  "u_gtg rs =
     (let e = error_of rs; k = K_g (error_norm rs)
      in (fmul k (at0 e), fmul k (at1 e), fmul k (at2 e)))"

text \<open>
  The gain of line 72 as a function of a real distance, which is what \<open>K_g\<close> computes
  on a finite distance \<open>r \<ge> 0\<close>; it is the \<open>K(r)\<close> of the specification.
\<close>

definition gain :: "real \<Rightarrow> real" where
  "gain r = v_trans_max * (1 - exp (- beta * r)) / (r + 1 / 10 ^ 10)"

subsection \<open>The quadratic program (lines 80 to 92)\<close>

definition Q_mat :: mat2 where
  "Q_mat = ((2 * 1, 2 * 0), (2 * 0, 2 * 1))"

definition c_mat :: "fvec2 \<Rightarrow> fvec2" where
  "c_mat u = (fmul (Fin (- 2)) (fst u), fmul (Fin (- 2)) (snd u))"

definition vector_to_obstacle :: "fvec3 \<Rightarrow> fvec2" where
  "vector_to_obstacle rs =
     (fsub (at0 rs) (Fin (at0 obstacle_state)), fsub (at1 rs) (Fin (at1 obstacle_state)))"

definition H_mat :: "fvec3 \<Rightarrow> fvec2" where
  "H_mat rs =
     (fmul (Fin (- 2)) (fst (vector_to_obstacle rs)),
      fmul (Fin (- 2)) (snd (vector_to_obstacle rs)))"

definition b_mat :: "fvec3 \<Rightarrow> fl" where
  "b_mat rs =
     fmul (Fin gamma)
       (fsub (fadd (fpow2 (fst (vector_to_obstacle rs))) (fpow2 (snd (vector_to_obstacle rs))))
             (Fin (d_safe\<^sup>2)))"

text \<open>
  \<open>cvxopt.solvers.qp\<close> is a library outside the repository; the program is modelled
  for any solver. The solver is taken to return finite numbers. Line 91 is
  \<open>sol = cvxopt.solvers.qp(Q_mat, c_mat, H_mat, b_mat)\<close> and line 92 is
  \<open>current_input = np.array([sol['x'][0], sol['x'][1], 0])\<close>.
\<close>

type_synonym solver = "mat2 \<Rightarrow> fvec2 \<Rightarrow> fvec2 \<Rightarrow> fl \<Rightarrow> vec2"

definition sol :: "solver \<Rightarrow> fvec3 \<Rightarrow> vec2" where
  "sol qp rs = qp Q_mat (c_mat (take2 (u_gtg rs))) (H_mat rs) (b_mat rs)"

definition qp_input :: "solver \<Rightarrow> fvec3 \<Rightarrow> fvec3" where
  "qp_input qp rs = (Fin (fst (sol qp rs)), Fin (snd (sol qp rs)), Fin 0)"

text \<open>
  The barrier function of the specification at a finite position,
  \<open>h(p) = |p - o|\<^sup>2 - d_safe\<^sup>2\<close>.
\<close>

definition barrier :: "real \<Rightarrow> real \<Rightarrow> real" where
  "barrier x y = (sqrt ((x - at0 obstacle_state)\<^sup>2 + (y - at1 obstacle_state)\<^sup>2))\<^sup>2 - d_safe\<^sup>2"

subsection \<open>Actuator limits (lines 94 to 98)\<close>

definition limiter :: "fvec3 \<Rightarrow> fvec3" where
  "limiter ci =
     (let v_ratio = fdiv (at0 ci) (fadd (at2 ci) (at1 ci));
          vy = fdiv (Fin 0.5) (fsqrt (fadd (Fin 1) (fpow2 v_ratio)));
          vx = fmul v_ratio vy;
          w = fmin (at2 ci) (Fin (5 * Ts))
      in (vx, vy, w))"

subsection \<open>State update (lines 114 and 115)\<close>

definition integrate :: "fvec3 \<Rightarrow> fvec3 \<Rightarrow> fvec3" where
  "integrate rs ci =
     (fadd (at0 rs) (fmul (Fin Ts) (at0 ci)), fadd (at1 rs) (fmul (Fin Ts) (at1 ci)),
      wrap_angle (fadd (at2 rs) (fmul (Fin Ts) (at2 ci))))"

subsection \<open>The simulation loop (lines 35 to 123)\<close>

record sim =
  robot_state :: fvec3
  current_input :: fvec3
  error_history :: "fvec3 list"
  state_history :: "fvec3 list"
  goal_history :: "fvec3 list"
  input_history :: "fvec3 list"
  h_history :: "fvec2 list"

text \<open>\<open>IndexError\<close> is what a row assignment past the end of a buffer raises.\<close>

datatype failure = IndexError

datatype flow = Break sim | Continue sim

definition set_row :: "'a list \<Rightarrow> nat \<Rightarrow> 'a \<Rightarrow> failure + 'a list" where
  "set_row xs i v = (if i < length xs then Inr (xs[i := v]) else Inl IndexError)"

definition on_ok :: "failure + 'a \<Rightarrow> ('a \<Rightarrow> failure + 'b) \<Rightarrow> failure + 'b" where
  "on_ok m f = (case m of Inl e \<Rightarrow> Inl e | Inr x \<Rightarrow> f x)"

definition init_sim :: sim where
  "init_sim =
     \<lparr>robot_state = array init_state,
      current_input = (Fin 0, Fin 0, Fin 0),
      error_history = replicate sim_iter (Fin 0, Fin 0, Fin 0),
      state_history = replicate sim_iter (Fin 0, Fin 0, Fin 0),
      goal_history = replicate sim_iter (Fin 0, Fin 0, Fin 0),
      input_history = replicate sim_iter (Fin 0, Fin 0, Fin 0),
      h_history = replicate sim_iter (Fin 0, Fin 0)\<rparr>"

text \<open>
  One pass through the body of \<open>for it in range(sim_iter)\<close>. A tick whose limiter
  divides by zero is a tick like any other: it records its rows, which then hold
  \<open>nan\<close>, and integrates the state.
\<close>

definition tick :: "solver \<Rightarrow> nat \<Rightarrow> sim \<Rightarrow> failure + flow" where
  "tick qp it s =
     on_ok (set_row (state_history s) it (robot_state s)) (\<lambda>sh.
     on_ok (set_row (goal_history s) it (array desired_state)) (\<lambda>gh.
       let rs = robot_state s;
           s1 = s\<lparr>state_history := sh, goal_history := gh\<rparr>
       in if fge (error_norm rs) (Fin 0.005) then
            (let ci = limiter (qp_input qp rs)
             in on_ok (set_row (input_history s1) it ci) (\<lambda>ih.
                on_ok (set_row (error_history s1) it (error_of rs)) (\<lambda>eh.
                on_ok (set_row (h_history s1) it (H_mat rs)) (\<lambda>hh.
                  Inr (Continue (s1\<lparr>current_input := ci,
                                    input_history := ih,
                                    error_history := eh,
                                    h_history := hh,
                                    robot_state := integrate rs ci\<rparr>))))))
          else Inr (Break s1)))"

text \<open>\<open>iterate qp it n s\<close> runs the ticks \<open>it, it + 1, ..., it + n - 1\<close> unless one breaks.\<close>

fun iterate :: "solver \<Rightarrow> nat \<Rightarrow> nat \<Rightarrow> sim \<Rightarrow> failure + sim" where
  "iterate qp it 0 s = Inr s"
| "iterate qp it (Suc n) s =
     (case tick qp it s of
        Inl e \<Rightarrow> Inl e
      | Inr (Break s') \<Rightarrow> Inr s'
      | Inr (Continue s') \<Rightarrow> iterate qp (Suc it) n s')"

definition simulate_control ::
  "solver \<Rightarrow> failure + (fvec3 list \<times> fvec3 list \<times> fvec3 list \<times> fvec2 list)" where
  "simulate_control qp =
     (case iterate qp 0 sim_iter init_sim of
        Inl e \<Rightarrow> Inl e
      | Inr s \<Rightarrow> Inr (state_history s, goal_history s, input_history s, h_history s))"

section \<open>Auxiliary facts\<close>

subsection \<open>Numbers and the heading wrap\<close>

lemma fsub_Fin [simp]: "fsub (Fin a) (Fin b) = Fin (a - b)"
  by (simp add: fsub_def)

lemma fsub_NaN [simp]: "fsub NaN y = NaN" "fsub x NaN = NaN"
  by (cases x; simp add: fsub_def)+

lemma fadd_NaN_right [simp]: "fadd x NaN = NaN"
  by (cases x) simp_all

lemma fmul_NaN_right [simp]: "fmul x NaN = NaN"
  by (cases x) simp_all

lemma py_mod_range: "0 < m \<Longrightarrow> 0 \<le> py_mod x m \<and> py_mod x m < m"
proof -
  assume m: "0 < m"
  have lo: "of_int \<lfloor>x / m\<rfloor> \<le> x / m" by simp
  have hi: "x / m < of_int \<lfloor>x / m\<rfloor> + 1" by linarith
  from lo m have "m * of_int \<lfloor>x / m\<rfloor> \<le> x"
    by (metis mult.commute pos_le_divide_eq)
  moreover from hi m have "x < m * (of_int \<lfloor>x / m\<rfloor> + 1)"
    by (metis mult.commute pos_divide_less_eq)
  ultimately show ?thesis
    by (simp add: py_mod_def algebra_simps)
qed

lemma wrap_angle_Fin: "wrap_angle (Fin a) = Fin (py_mod (a + pi) (2 * pi) - pi)"
  by (simp add: wrap_angle_def)

lemma wrap_range: "- pi \<le> py_mod (a + pi) (2 * pi) - pi \<and> py_mod (a + pi) (2 * pi) - pi < pi"
  using py_mod_range [of "2 * pi" "a + pi"] by simp

lemma wrap_id: "- pi \<le> a \<Longrightarrow> a < pi \<Longrightarrow> py_mod (a + pi) (2 * pi) - pi = a"
proof -
  assume a: "- pi \<le> a" "a < pi"
  have "0 \<le> (a + pi) / (2 * pi)" using a by simp
  moreover have "(a + pi) / (2 * pi) < 1" using a by simp
  ultimately have "\<lfloor>(a + pi) / (2 * pi)\<rfloor> = 0" by linarith
  then show ?thesis by (simp add: py_mod_def)
qed

lemma wrap_pi: "py_mod (pi + pi) (2 * pi) - pi = - pi"
proof -
  have "(pi + pi) / (2 * pi) = 1" by simp
  then have "\<lfloor>(pi + pi) / (2 * pi)\<rfloor> = 1" by simp
  then show ?thesis by (simp add: py_mod_def)
qed

lemma wrap_shift: "\<exists>k::int. py_mod (a + pi) (2 * pi) - pi = a + 2 * pi * of_int k"
  by (rule exI [of _ "- \<lfloor>(a + pi) / (2 * pi)\<rfloor>"]) (simp add: py_mod_def)

lemma sim_iter_pos: "0 < sim_iter"
proof -
  have "2 \<le> pi" by (rule pi_ge_two)
  then have "600 \<le> t_max / Ts" by (simp add: t_max_def Ts_def)
  then have "600 \<le> round (t_max / Ts)" by (simp add: round_def le_floor_iff)
  then show ?thesis by (simp add: sim_iter_def)
qed

lemma error_norm_Fin:
  "error_norm (Fin x, Fin y, th) =
     Fin (sqrt ((at0 desired_state - x)\<^sup>2 + (at1 desired_state - y)\<^sup>2))"
  by (simp add: error_norm_def error_of_def)

lemma sqrt_one_plus_sq_pos: "0 < sqrt (1 + (r::real)\<^sup>2)"
  by (simp add: add_pos_nonneg)

lemma limiter_Fin:
  assumes "vy + w \<noteq> 0"
  shows "limiter (Fin vx, Fin vy, Fin w) =
           (Fin (vx / (w + vy) * (0.5 / sqrt (1 + (vx / (w + vy))\<^sup>2))),
            Fin (0.5 / sqrt (1 + (vx / (w + vy))\<^sup>2)),
            Fin (min w (5 * Ts)))"
proof -
  have nz: "w + vy \<noteq> 0" using assms by (simp add: add.commute)
  have p: "0 < sqrt (1 + (vx / (w + vy))\<^sup>2)" by (rule sqrt_one_plus_sq_pos)
  have q: "0 \<le> 1 + (vx / (w + vy))\<^sup>2" by simp
  show ?thesis
    unfolding limiter_def Let_def using nz p q by simp
qed


subsection \<open>The limiter\<close>

lemma scaled_norm:
  fixes r :: real
  shows "sqrt ((r * (c / sqrt (1 + r\<^sup>2)))\<^sup>2 + (c / sqrt (1 + r\<^sup>2))\<^sup>2) = \<bar>c\<bar>"
proof -
  define s where "s = sqrt (1 + r\<^sup>2)"
  have pos: "0 < 1 + r\<^sup>2" by (simp add: add_pos_nonneg)
  then have s2: "s\<^sup>2 = 1 + r\<^sup>2" and s0: "s \<noteq> 0" by (simp_all add: s_def)
  have "(r * (c / s))\<^sup>2 + (c / s)\<^sup>2 = (c / s)\<^sup>2 * (1 + r\<^sup>2)"
    by (simp add: power2_eq_square distrib_left mult.assoc mult.left_commute)
  also have "\<dots> = c\<^sup>2 / s\<^sup>2 * s\<^sup>2"
    by (simp add: power_divide s2)
  also have "\<dots> = c\<^sup>2"
    using s0 by simp
  finally show ?thesis by (simp add: s_def)
qed

lemma limiter_speed:
  assumes "vy + w \<noteq> 0"
  shows "\<exists>ox oy. limiter (Fin vx, Fin vy, Fin w) = (Fin ox, Fin oy, Fin (min w (5 * Ts))) \<and>
                 norm2 (Fin ox, Fin oy) = Fin v_trans_max \<and> 0 < oy"
proof -
  let ?r = "vx / (w + vy)"
  have n: "sqrt ((?r * (0.5 / sqrt (1 + ?r\<^sup>2)))\<^sup>2 + (0.5 / sqrt (1 + ?r\<^sup>2))\<^sup>2) = 0.5"
    using scaled_norm [of ?r "0.5"] by simp
  have p: "0 < 0.5 / sqrt (1 + ?r\<^sup>2)"
    using sqrt_one_plus_sq_pos [of ?r] by simp
  have "norm2 (Fin (?r * (0.5 / sqrt (1 + ?r\<^sup>2))), Fin (0.5 / sqrt (1 + ?r\<^sup>2))) = Fin v_trans_max"
    using n by (simp add: v_trans_max_def)
  with limiter_Fin [OF assms, of vx] p show ?thesis by blast
qed

lemma limiter_direction:
  assumes vy: "0 < vy"
  shows "limiter (Fin vx, Fin vy, Fin 0) =
           (Fin (vx * (v_trans_max / sqrt (vx\<^sup>2 + vy\<^sup>2))),
            Fin (vy * (v_trans_max / sqrt (vx\<^sup>2 + vy\<^sup>2))), Fin 0)"
proof -
  have n: "sqrt (1 + (vx / vy)\<^sup>2) = sqrt (vx\<^sup>2 + vy\<^sup>2) / vy"
  proof -
    have "1 + (vx / vy)\<^sup>2 = (vx\<^sup>2 + vy\<^sup>2) / vy\<^sup>2"
      using vy by (simp add: field_simps)
    then have "sqrt (1 + (vx / vy)\<^sup>2) = sqrt (vx\<^sup>2 + vy\<^sup>2) / sqrt (vy\<^sup>2)"
      by (simp add: real_sqrt_divide)
    then show ?thesis using vy by simp
  qed
  have npos: "0 < sqrt (vx\<^sup>2 + vy\<^sup>2)"
    using vy by (simp add: add_nonneg_pos)
  have a: "0.5 / sqrt (1 + (vx / vy)\<^sup>2) = vy * (v_trans_max / sqrt (vx\<^sup>2 + vy\<^sup>2))"
    using vy npos by (simp add: n v_trans_max_def)
  have b: "vx / vy * (vy * (v_trans_max / sqrt (vx\<^sup>2 + vy\<^sup>2))) =
           vx * (v_trans_max / sqrt (vx\<^sup>2 + vy\<^sup>2))"
    using vy by simp
  have "vy + 0 \<noteq> 0" using vy by simp
  from limiter_Fin [OF this, of vx]
  have "limiter (Fin vx, Fin vy, Fin 0) =
          (Fin (vx / vy * (0.5 / sqrt (1 + (vx / vy)\<^sup>2))), Fin (0.5 / sqrt (1 + (vx / vy)\<^sup>2)),
           Fin 0)"
    by (simp add: Ts_def)
  then show ?thesis
    by (simp only: a b)
qed

lemma limiter_omega: "at2 (limiter (vx, vy, Fin 0)) = Fin 0"
  by (simp add: limiter_def Let_def Ts_def)

lemma sqrt_pythagoras: "sqrt (1 + (3 / 4)\<^sup>2) = 5 / 4"
  by (rule real_sqrt_unique) (simp_all add: power2_eq_square)

lemma limiter_example: "limiter (Fin (3 / 100), Fin (4 / 100), Fin 0) = (Fin (3 / 10), Fin (4 / 10), Fin 0)"
proof -
  have "(4 / 100 :: real) + 0 \<noteq> 0" by simp
  from limiter_Fin [OF this, of "3 / 100"] show ?thesis
    by (simp add: Ts_def sqrt_pythagoras)
qed

lemma norm2_small: "norm2 (Fin (3 / 100), Fin (4 / 100)) = Fin (5 / 100)"
proof -
  have "sqrt ((3 / 100)\<^sup>2 + (4 / 100)\<^sup>2) = (5 / 100 :: real)"
    by (rule real_sqrt_unique) (simp_all add: power2_eq_square)
  then show ?thesis by simp
qed

subsection \<open>One tick\<close>

lemma on_ok_simps [simp]:
  "on_ok (Inl e) f = Inl e" "on_ok (Inr x) f = f x"
  by (simp_all add: on_ok_def)

lemma tick_goal:
  assumes "it < length (state_history s)" "it < length (goal_history s)"
    and "\<not> fge (error_norm (robot_state s)) (Fin 0.005)"
  shows "tick qp it s =
           Inr (Break (s\<lparr>state_history := (state_history s)[it := robot_state s],
                          goal_history := (goal_history s)[it := array desired_state]\<rparr>))"
  using assms by (simp add: tick_def set_row_def Let_def)

lemma tick_run:
  assumes "it < length (state_history s)" "it < length (goal_history s)"
    and "it < length (input_history s)" "it < length (error_history s)"
    and "it < length (h_history s)"
    and "fge (error_norm (robot_state s)) (Fin 0.005)"
  shows "tick qp it s =
           Inr (Continue (s\<lparr>state_history := (state_history s)[it := robot_state s],
                             goal_history := (goal_history s)[it := array desired_state],
                             current_input := limiter (qp_input qp (robot_state s)),
                             input_history :=
                               (input_history s)[it := limiter (qp_input qp (robot_state s))],
                             error_history := (error_history s)[it := error_of (robot_state s)],
                             h_history := (h_history s)[it := H_mat (robot_state s)],
                             robot_state :=
                               integrate (robot_state s) (limiter (qp_input qp (robot_state s)))\<rparr>))"
  using assms by (simp add: tick_def set_row_def Let_def)

lemma tick_Break_D:
  assumes "tick qp it s = Inr (Break s')"
  shows "\<not> fge (error_norm (robot_state s)) (Fin 0.005)"
    and "it < length (state_history s)" and "it < length (goal_history s)"
    and "s' = s\<lparr>state_history := (state_history s)[it := robot_state s],
                 goal_history := (goal_history s)[it := array desired_state]\<rparr>"
  using assms
  by (auto simp: tick_def set_row_def Let_def on_ok_def split: if_splits sum.splits)

lemma tick_Continue_D:
  assumes "tick qp it s = Inr (Continue s')"
  shows "fge (error_norm (robot_state s)) (Fin 0.005)"
    and "it < length (state_history s)" and "it < length (goal_history s)"
    and "it < length (input_history s)" and "it < length (error_history s)"
    and "it < length (h_history s)"
    and "s' = s\<lparr>state_history := (state_history s)[it := robot_state s],
             goal_history := (goal_history s)[it := array desired_state],
             current_input := limiter (qp_input qp (robot_state s)),
             input_history := (input_history s)[it := limiter (qp_input qp (robot_state s))],
             error_history := (error_history s)[it := error_of (robot_state s)],
             h_history := (h_history s)[it := H_mat (robot_state s)],
             robot_state := integrate (robot_state s) (limiter (qp_input qp (robot_state s)))\<rparr>"
  using assms
  by (auto simp: tick_def set_row_def Let_def on_ok_def split: if_splits sum.splits)

lemma tick_solver_cong:
  assumes "sol qp (robot_state s) = sol qp' (robot_state s)"
  shows "tick qp it s = tick qp' it s"
proof -
  from assms have h: "qp_input qp (robot_state s) = qp_input qp' (robot_state s)"
    by (simp add: qp_input_def)
  show ?thesis unfolding tick_def Let_def h ..
qed

lemma init_sim_fields [simp]:
  "robot_state init_sim = array init_state"
  "current_input init_sim = (Fin 0, Fin 0, Fin 0)"
  "length (state_history init_sim) = sim_iter"
  "length (goal_history init_sim) = sim_iter"
  "length (input_history init_sim) = sim_iter"
  "length (error_history init_sim) = sim_iter"
  "length (h_history init_sim) = sim_iter"
  by (simp_all add: init_sim_def)

lemma array_init: "array init_state = (Fin (- 2), Fin (- (1 / 2)), Fin 0)"
  by (simp add: init_state_def)

lemma error_norm_start: "fge (error_norm (Fin (- 2), Fin (- (1 / 2)), th)) (Fin 0.005)"
proof -
  have "sqrt 1 \<le> sqrt ((2 - (- 2))\<^sup>2 + (1 - (- (1 / 2)))\<^sup>2)"
    by (rule real_sqrt_le_mono) (simp add: power2_eq_square)
  then have "1 \<le> sqrt ((2 - (- 2))\<^sup>2 + (1 - (- (1 / 2)))\<^sup>2)"
    by (simp only: real_sqrt_one)
  moreover have "(0.005 :: real) \<le> 1" by simp
  ultimately have "0.005 \<le> sqrt ((2 - (- 2))\<^sup>2 + (1 - (- (1 / 2)))\<^sup>2)"
    by (rule order_trans [rotated])
  then have "fge (Fin (sqrt ((2 - (- 2))\<^sup>2 + (1 - (- (1 / 2)))\<^sup>2))) (Fin 0.005)"
    by (simp only: fge.simps)
  then show ?thesis
    by (simp only: error_norm_Fin desired_state_def at0.simps at1.simps)
qed

lemma H_mat_Fin:
  "H_mat (Fin x, Fin y, th) =
     (Fin (- 2 * (x - at0 obstacle_state)), Fin (- 2 * (y - at1 obstacle_state)))"
  by (simp add: H_mat_def vector_to_obstacle_def)

lemma b_mat_Fin:
  "b_mat (Fin x, Fin y, th) =
     Fin (gamma * ((x - at0 obstacle_state)\<^sup>2 + (y - at1 obstacle_state)\<^sup>2 - d_safe\<^sup>2))"
  by (simp add: b_mat_def vector_to_obstacle_def)

lemma barrier_eq:
  "barrier x y = (x - at0 obstacle_state)\<^sup>2 + (y - at1 obstacle_state)\<^sup>2 - d_safe\<^sup>2"
  by (simp add: barrier_def)

lemma barrier_init: "barrier (- 2) (- (1 / 2)) = 3744479 / 1000000"
  by (simp add: barrier_eq obstacle_state_def d_safe_def robot_radius_def power2_eq_square)

subsection \<open>The gain\<close>

lemma K_g_Fin:
  assumes "0 \<le> r"
  shows "K_g (Fin r) = Fin (gain r)"
proof -
  have "r + 1 / 10 ^ 10 \<noteq> 0" using assms by (simp add: add_nonneg_pos less_imp_neq [THEN not_sym])
  then show ?thesis by (simp add: K_g_def gain_def)
qed

lemma gain_tendsto_zero_at_zero: "(gain \<longlongrightarrow> 0) (at_right 0)"
proof -
  have "((\<lambda>r. v_trans_max * (1 - exp (- beta * r)) / (r + 1 / 10 ^ 10)) \<longlongrightarrow>
          v_trans_max * (1 - exp (- beta * 0)) / (0 + 1 / 10 ^ 10)) (at_right 0)"
    by (intro tendsto_intros) simp_all
  then have "((\<lambda>r. gain r) \<longlongrightarrow> 0) (at_right 0)"
    by (simp add: gain_def)
  then show ?thesis by simp
qed

lemma exp_neg_beta_tendsto: "((\<lambda>r::real. exp (- beta * r)) \<longlongrightarrow> 0) at_top"
proof -
  have c: "((\<lambda>r::real. - beta) \<longlongrightarrow> - beta) at_top"
    by (rule tendsto_const)
  have "- beta < 0" by (simp add: beta_def)
  with c have "filterlim (\<lambda>r::real. - beta * r) at_bot at_top"
    by (rule filterlim_tendsto_neg_mult_at_bot) (rule filterlim_ident)
  then show ?thesis
    by (rule filterlim_compose [OF exp_at_bot])
qed

lemma denominator_at_top: "filterlim (\<lambda>r::real. r + 1 / 10 ^ 10) at_top at_top"
proof -
  have c: "((\<lambda>r::real. 1 / 10 ^ 10 :: real) \<longlongrightarrow> 1 / 10 ^ 10) at_top"
    by (rule tendsto_const)
  have "filterlim (\<lambda>r::real. 1 / 10 ^ 10 + r) at_top at_top"
    using c filterlim_ident by (rule filterlim_tendsto_add_at_top)
  then show ?thesis by (simp add: add.commute)
qed

lemma numerator_tendsto:
  "((\<lambda>r::real. v_trans_max * (1 - exp (- beta * r))) \<longlongrightarrow> v_trans_max) at_top"
proof -
  have "((\<lambda>r::real. v_trans_max * (1 - exp (- beta * r))) \<longlongrightarrow> v_trans_max * (1 - 0)) at_top"
    by (intro tendsto_intros exp_neg_beta_tendsto)
  then show ?thesis by simp
qed

lemma gain_tendsto_zero_at_top: "(gain \<longlongrightarrow> 0) at_top"
proof -
  have "((\<lambda>r. v_trans_max * (1 - exp (- beta * r)) / (r + 1 / 10 ^ 10)) \<longlongrightarrow> 0) at_top"
    by (rule real_tendsto_divide_at_top [OF numerator_tendsto denominator_at_top])
  then have "((\<lambda>r. gain r) \<longlongrightarrow> 0) at_top"
    by (simp add: gain_def)
  then show ?thesis by simp
qed

lemma ratio_tendsto_one: "((\<lambda>r::real. r / (r + 1 / 10 ^ 10)) \<longlongrightarrow> 1) at_top"
proof -
  have z: "((\<lambda>r::real. (1 / 10 ^ 10) / (r + 1 / 10 ^ 10)) \<longlongrightarrow> 0) at_top"
    by (rule real_tendsto_divide_at_top [OF tendsto_const denominator_at_top])
  have "((\<lambda>r::real. 1 - (1 / 10 ^ 10) / (r + 1 / 10 ^ 10)) \<longlongrightarrow> 1 - 0) at_top"
    by (intro tendsto_intros z)
  then have lim: "((\<lambda>r::real. 1 - (1 / 10 ^ 10) / (r + 1 / 10 ^ 10)) \<longlongrightarrow> 1) at_top"
    by simp
  have ev: "eventually (\<lambda>r::real. 1 - (1 / 10 ^ 10) / (r + 1 / 10 ^ 10) = r / (r + 1 / 10 ^ 10)) at_top"
    using eventually_gt_at_top [of "0::real"]
  proof eventually_elim
    case (elim r)
    have "1 - d / (r + d) = r / (r + d)" if "0 < d" for d :: real
      using that elim by (simp add: field_simps)
    from this [of "1 / 10 ^ 10"] show ?case by simp
  qed
  show ?thesis
    by (rule Lim_transform_eventually [OF lim ev])
qed

lemma speed_tendsto_v_trans_max: "((\<lambda>r. gain r * r) \<longlongrightarrow> v_trans_max) at_top"
proof -
  have "((\<lambda>r. v_trans_max * (1 - exp (- beta * r)) * (r / (r + 1 / 10 ^ 10))) \<longlongrightarrow> v_trans_max * 1)
          at_top"
    by (rule tendsto_mult [OF numerator_tendsto ratio_tendsto_one])
  then show ?thesis by (simp add: gain_def)
qed

lemma gain_not_saturating: "\<not> (gain \<longlongrightarrow> v_trans_max) at_top"
proof
  assume "(gain \<longlongrightarrow> v_trans_max) at_top"
  then have "v_trans_max = 0"
    using gain_tendsto_zero_at_top by (rule tendsto_unique [OF trivial_limit_at_top_linorder])
  then show False by (simp add: v_trans_max_def)
qed

lemma gain_not_beta_v: "\<not> (gain \<longlongrightarrow> beta * v_trans_max) (at_right 0)"
proof
  assume "(gain \<longlongrightarrow> beta * v_trans_max) (at_right 0)"
  then have "beta * v_trans_max = 0"
    using gain_tendsto_zero_at_zero by (rule tendsto_unique [OF trivial_limit_at_right_real])
  then show False by (simp add: v_trans_max_def beta_def)
qed

lemma unregularised_gain_limit:
  "((\<lambda>r. v_trans_max * (1 - exp (- beta * r)) / r) \<longlongrightarrow> beta * v_trans_max) (at_right 0)"
proof -
  have "((\<lambda>r. v_trans_max * (1 - exp (- beta * r))) has_field_derivative
          beta * v_trans_max) (at 0)"
    by (auto intro!: derivative_eq_intros)
  then have "((\<lambda>h. (v_trans_max * (1 - exp (- beta * (0 + h))) -
                    v_trans_max * (1 - exp (- beta * 0))) / h) \<longlongrightarrow> beta * v_trans_max) (at 0)"
    by (simp only: DERIV_def)
  then have "((\<lambda>r. v_trans_max * (1 - exp (- beta * r)) / r) \<longlongrightarrow> beta * v_trans_max) (at 0)"
    by simp
  then show ?thesis
    by (rule filterlim_mono [OF _ order_refl at_le]) simp
qed

subsection \<open>The loop\<close>

lemma limiter_qp_input_omega: "at2 (limiter (qp_input qp rs)) = Fin 0"
  by (simp add: qp_input_def limiter_omega)

lemma integrate_heading_fixed:
  assumes "at2 ci = Fin 0" "at2 rs = Fin th" "- pi \<le> th" "th < pi"
  shows "at2 (integrate rs ci) = Fin th"
proof -
  obtain a b c where rs: "rs = (a, b, c)" by (cases rs)
  obtain d e f where ci: "ci = (d, e, f)" by (cases ci)
  from assms show ?thesis
    by (simp add: rs ci integrate_def wrap_angle_Fin wrap_id)
qed

lemma tick_heading:
  assumes t: "tick qp it s = Inr (Continue s')"
  shows "at2 (current_input s') = Fin 0"
    and "input_history s' = (input_history s)[it := current_input s']"
    and "state_history s' = (state_history s)[it := robot_state s]"
    and "robot_state s' = integrate (robot_state s) (current_input s')"
    and "it < length (input_history s)"
    and "it < length (state_history s)"
proof -
  note d = tick_Continue_D [OF t]
  show "at2 (current_input s') = Fin 0"
    by (simp add: d(7) limiter_qp_input_omega)
  show "input_history s' = (input_history s)[it := current_input s']" by (simp add: d(7))
  show "state_history s' = (state_history s)[it := robot_state s]" by (simp add: d(7))
  show "robot_state s' = integrate (robot_state s) (current_input s')" by (simp add: d(7))
  show "it < length (input_history s)" "it < length (state_history s)" by (rule d)+
qed

lemma set_update_all:
  assumes "\<forall>r\<in>set xs. P r" "P v"
  shows "\<forall>r\<in>set (xs[i := v]). P r"
  using assms set_update_subset_insert [of xs i v] by auto

lemma iterate_heading:
  assumes "iterate qp it n s = Inr s'"
    and "at2 (robot_state s) = Fin th" "- pi \<le> th" "th < pi"
    and "at2 (current_input s) = Fin 0"
    and "\<forall>r\<in>set (input_history s). at2 r = Fin 0"
    and "\<forall>r\<in>set (state_history s). at2 r = Fin th"
  shows "at2 (robot_state s') = Fin th \<and> at2 (current_input s') = Fin 0 \<and>
         (\<forall>r\<in>set (input_history s'). at2 r = Fin 0) \<and>
         (\<forall>r\<in>set (state_history s'). at2 r = Fin th)"
  using assms
proof (induction n arbitrary: it s)
  case 0
  then show ?case by simp
next
  case (Suc n)
  show ?case
  proof (cases "tick qp it s")
    case (Inl e)
    with Suc.prems(1) show ?thesis by simp
  next
    case (Inr fl)
    show ?thesis
    proof (cases fl)
      case (Break s1)
      with Inr Suc.prems(1) have eq: "s' = s1" by simp
      from Inr Break have t: "tick qp it s = Inr (Break s1)" by simp
      have s1: "s1 = s\<lparr>state_history := (state_history s)[it := robot_state s],
                 goal_history := (goal_history s)[it := array desired_state]\<rparr>"
        by (rule tick_Break_D(4) [OF t])
      have "\<forall>r\<in>set ((state_history s)[it := robot_state s]). at2 r = Fin th"
        using Suc.prems(7) Suc.prems(2) by (rule set_update_all)
      with Suc.prems show ?thesis by (simp add: eq s1)
    next
      case (Continue s1)
      with Inr have t: "tick qp it s = Inr (Continue s1)" by simp
      with Suc.prems(1) have run: "iterate qp (Suc it) n s1 = Inr s'" by simp
      note h = tick_heading [OF t]
      have th: "at2 (robot_state s1) = Fin th"
        unfolding h(4) using h(1) Suc.prems(2,3,4) by (rule integrate_heading_fixed)
      have ih1: "\<forall>r\<in>set (input_history s1). at2 r = Fin 0"
        unfolding h(2) using Suc.prems(6) h(1) by (rule set_update_all)
      have sh1: "\<forall>r\<in>set (state_history s1). at2 r = Fin th"
        unfolding h(3) using Suc.prems(7) Suc.prems(2) by (rule set_update_all)
      from Suc.IH [OF run th Suc.prems(3,4) h(1) ih1 sh1] show ?thesis .
    qed
  qed
qed

lemma iterate_total:
  assumes "it + n \<le> length (state_history s)" "it + n \<le> length (goal_history s)"
    and "it + n \<le> length (input_history s)" "it + n \<le> length (error_history s)"
    and "it + n \<le> length (h_history s)"
  shows "\<exists>s'. iterate qp it n s = Inr s'"
  using assms
proof (induction n arbitrary: it s)
  case 0
  then show ?case by simp
next
  case (Suc n)
  then have len: "it < length (state_history s)" "it < length (goal_history s)"
    "it < length (input_history s)" "it < length (error_history s)"
    "it < length (h_history s)" by simp_all
  show ?case
  proof (cases "fge (error_norm (robot_state s)) (Fin 0.005)")
    case False
    from tick_goal [OF len(1,2) False] show ?thesis by simp
  next
    case True
    note run = tick_run [OF len True, of qp]
    have "\<exists>s'. iterate qp (Suc it) n
        (s\<lparr>state_history := (state_history s)[it := robot_state s],
           goal_history := (goal_history s)[it := array desired_state],
           current_input := limiter (qp_input qp (robot_state s)),
           input_history := (input_history s)[it := limiter (qp_input qp (robot_state s))],
           error_history := (error_history s)[it := error_of (robot_state s)],
           h_history := (h_history s)[it := H_mat (robot_state s)],
           robot_state := integrate (robot_state s) (limiter (qp_input qp (robot_state s)))\<rparr>)
        = Inr s'"
      using Suc.prems by (intro Suc.IH) simp_all
    then show ?thesis by (simp add: run)
  qed
qed

lemma init_sim_rows:
  "\<forall>r\<in>set (input_history init_sim). at2 r = Fin 0"
  "\<forall>r\<in>set (state_history init_sim). at2 r = Fin 0"
  by (simp_all add: init_sim_def)

subsection \<open>Concrete ticks\<close>

lemma tick_example:
  "tick (\<lambda>P q G h. (3 / 100, 4 / 100)) 0
        (init_sim\<lparr>robot_state := (Fin (- 2), Fin (- (1 / 2)), Fin th)\<rparr>) =
     Inr (Continue (init_sim
       \<lparr>robot_state := integrate (Fin (- 2), Fin (- (1 / 2)), Fin th)
                                  (Fin (3 / 10), Fin (4 / 10), Fin 0),
        current_input := (Fin (3 / 10), Fin (4 / 10), Fin 0),
        error_history :=
          (error_history init_sim)[0 := error_of (Fin (- 2), Fin (- (1 / 2)), Fin th)],
        state_history := (state_history init_sim)[0 := (Fin (- 2), Fin (- (1 / 2)), Fin th)],
        goal_history := (goal_history init_sim)[0 := array desired_state],
        input_history := (input_history init_sim)[0 := (Fin (3 / 10), Fin (4 / 10), Fin 0)],
        h_history := (h_history init_sim)[0 := (Fin 4, Fin 1)]\<rparr>))"
proof -
  let ?s = "init_sim\<lparr>robot_state := (Fin (- 2), Fin (- (1 / 2)), Fin th)\<rparr>"
  let ?qp = "\<lambda>(P::mat2) (q::fvec2) (G::fvec2) (h::fl). (3 / 100 :: real, 4 / 100 :: real)"
  have e: "fge (error_norm (robot_state ?s)) (Fin 0.005)"
    using error_norm_start [of "Fin th"] by simp
  have l: "limiter (qp_input ?qp (robot_state ?s)) = (Fin (3 / 10), Fin (4 / 10), Fin 0)"
    using limiter_example by (simp add: qp_input_def sol_def)
  have H: "H_mat (Fin (- 2), Fin (- (1 / 2)), Fin th) = (Fin 4, Fin 1)"
    by (simp add: H_mat_Fin obstacle_state_def)
  have "tick ?qp 0 ?s = Inr (Continue (?s
       \<lparr>state_history := (state_history ?s)[0 := robot_state ?s],
        goal_history := (goal_history ?s)[0 := array desired_state],
        current_input := limiter (qp_input ?qp (robot_state ?s)),
        input_history := (input_history ?s)[0 := limiter (qp_input ?qp (robot_state ?s))],
        error_history := (error_history ?s)[0 := error_of (robot_state ?s)],
        h_history := (h_history ?s)[0 := H_mat (robot_state ?s)],
        robot_state := integrate (robot_state ?s) (limiter (qp_input ?qp (robot_state ?s)))\<rparr>))"
    using _ _ _ _ _ e by (rule tick_run) (simp_all add: sim_iter_pos)
  then show ?thesis unfolding l by (simp add: H)
qed

lemma init_sim_start: "init_sim\<lparr>robot_state := (Fin (- 2), Fin (- (1 / 2)), Fin 0)\<rparr> = init_sim"
  by (simp add: init_sim_def init_state_def)

lemma integrate_Fin:
  "integrate (Fin x, Fin y, Fin th) (Fin vx, Fin vy, Fin w) =
     (Fin (x + Ts * vx), Fin (y + Ts * vy), Fin (py_mod (th + Ts * w + pi) (2 * pi) - pi))"
  by (simp add: integrate_def wrap_angle_Fin)

lemma error_norm_goal: "error_norm (array desired_state) = Fin 0"
  by (simp add: error_norm_Fin desired_state_def)

lemma take2_u_gtg_Fin:
  "take2 (u_gtg (Fin x, Fin y, th)) =
     (Fin (gain (sqrt ((at0 desired_state - x)\<^sup>2 + (at1 desired_state - y)\<^sup>2))
             * (at0 desired_state - x)),
      Fin (gain (sqrt ((at0 desired_state - x)\<^sup>2 + (at1 desired_state - y)\<^sup>2))
             * (at1 desired_state - y)))"
proof -
  have "0 \<le> sqrt ((at0 desired_state - x)\<^sup>2 + (at1 desired_state - y)\<^sup>2)" by simp
  from K_g_Fin [OF this] show ?thesis
    by (simp add: u_gtg_def Let_def error_norm_Fin) (simp add: error_of_def)
qed

lemma gain_le:
  assumes "0 < r"
  shows "gain r \<le> v_trans_max / r"
proof -
  have "1 - exp (- beta * r) \<le> 1" by simp
  then have n: "v_trans_max * (1 - exp (- beta * r)) \<le> v_trans_max"
    by (simp add: v_trans_max_def)
  have "v_trans_max * (1 - exp (- beta * r)) / (r + 1 / 10 ^ 10) \<le> v_trans_max / r"
    using assms n by (intro frac_le) (simp_all add: v_trans_max_def)
  then show ?thesis by (simp only: gain_def)
qed



section \<open>The claims\<close>

text \<open>
  C1, as amended. The limiter has no test of the speed against the limit: for every QP
  output \<open>(vx, vy)\<close> with \<open>vy \<noteq> 0\<close> it returns a finite velocity of magnitude exactly
  \<open>v_trans_max\<close>, whatever the magnitude of the input, so the bound
  \<open>|(vx, vy)| \<le> v_trans_max\<close> holds; and when \<open>vy > 0\<close> the output is the input
  multiplied by the positive factor \<open>v_trans_max / |(vx, vy)|\<close>, that is, it has the
  direction of the input.
\<close>

theorem limiter_always_full_speed:
  assumes "vy \<noteq> 0"
  shows "\<exists>ox oy. limiter (Fin vx, Fin vy, Fin 0) = (Fin ox, Fin oy, Fin 0) \<and>
              norm2 (Fin ox, Fin oy) = Fin v_trans_max \<and>
              fge (Fin v_trans_max) (norm2 (Fin ox, Fin oy)) \<and>
              (0 < vy \<longrightarrow>
                 ox = vx * (v_trans_max / sqrt (vx\<^sup>2 + vy\<^sup>2)) \<and>
                 oy = vy * (v_trans_max / sqrt (vx\<^sup>2 + vy\<^sup>2)) \<and>
                 0 < v_trans_max / sqrt (vx\<^sup>2 + vy\<^sup>2))"
proof -
  from assms have "vy + 0 \<noteq> 0" by simp
  from limiter_speed [OF this, of vx] obtain ox oy where
    l: "limiter (Fin vx, Fin vy, Fin 0) = (Fin ox, Fin oy, Fin 0)" and
    n: "norm2 (Fin ox, Fin oy) = Fin v_trans_max"
    by (auto simp: Ts_def)
  have dir: "ox = vx * (v_trans_max / sqrt (vx\<^sup>2 + vy\<^sup>2)) \<and>
             oy = vy * (v_trans_max / sqrt (vx\<^sup>2 + vy\<^sup>2)) \<and>
             0 < v_trans_max / sqrt (vx\<^sup>2 + vy\<^sup>2)" if "0 < vy"
  proof -
    have "0 < sqrt (vx\<^sup>2 + vy\<^sup>2)" using that by (simp add: add_nonneg_pos)
    then have "0 < v_trans_max / sqrt (vx\<^sup>2 + vy\<^sup>2)" by (simp add: v_trans_max_def)
    moreover from limiter_direction [OF that, of vx] l
    have "ox = vx * (v_trans_max / sqrt (vx\<^sup>2 + vy\<^sup>2)) \<and>
          oy = vy * (v_trans_max / sqrt (vx\<^sup>2 + vy\<^sup>2))" by simp
    ultimately show ?thesis by simp
  qed
  have "fge (Fin v_trans_max) (norm2 (Fin ox, Fin oy))"
    unfolding n by simp
  with l n dir show ?thesis by blast
qed

theorem limiter_always_full_speed_witness:
  "(4 / 100 :: real) \<noteq> 0 \<and> 0 < (4 / 100 :: real) \<and>
   (\<exists>ox oy. limiter (Fin (3 / 100), Fin (4 / 100), Fin 0) = (Fin ox, Fin oy, Fin 0) \<and>
         norm2 (Fin ox, Fin oy) = Fin v_trans_max \<and>
         ox = 3 / 100 * (v_trans_max / sqrt ((3 / 100)\<^sup>2 + (4 / 100)\<^sup>2)) \<and>
         oy = 4 / 100 * (v_trans_max / sqrt ((3 / 100)\<^sup>2 + (4 / 100)\<^sup>2)))"
  using limiter_always_full_speed [of "4 / 100" "3 / 100"] by simp

text \<open>
  C1 as stated fails: the QP output \<open>(0.03, 0.04)\<close> has norm \<open>0.05\<close>, below the limit
  \<open>0.5\<close>, and the limiter does not leave it unchanged but returns \<open>(0.3, 0.4)\<close>.
\<close>

theorem limiter_unconditional_rescale_counterexample:
  "norm2 (Fin (3 / 100), Fin (4 / 100)) = Fin (5 / 100) \<and> 5 / 100 \<le> v_trans_max \<and>
   limiter (Fin (3 / 100), Fin (4 / 100), Fin 0) = (Fin (3 / 10), Fin (4 / 10), Fin 0) \<and>
   take2 (Fin (3 / 10 :: real), Fin (4 / 10 :: real), Fin (0 :: real)) \<noteq>
     (Fin (3 / 100), Fin (4 / 100))"
  using norm2_small limiter_example by (simp add: v_trans_max_def)

text \<open>
  C2, as amended. On finite numbers the state update is the explicit Euler step: \<open>x\<close>
  and \<open>y\<close> advance by \<open>Ts\<close> times the input, the heading advances by \<open>Ts\<close> times the
  angular rate up to a multiple of \<open>2 pi\<close>, and after the update the heading lies in the
  half-open interval \<open>[-pi, pi)\<close>, whatever the heading and the rate were before. On a
  tick that is not terminal the new state is this update of the old state by the
  recorded input.
\<close>

theorem euler_step_wrapped_heading:
  "at0 (integrate (Fin x, Fin y, Fin th) (Fin vx, Fin vy, Fin w)) = Fin (x + Ts * vx) \<and>
   at1 (integrate (Fin x, Fin y, Fin th) (Fin vx, Fin vy, Fin w)) = Fin (y + Ts * vy) \<and>
   (\<exists>th'. at2 (integrate (Fin x, Fin y, Fin th) (Fin vx, Fin vy, Fin w)) = Fin th' \<and>
          (\<exists>k::int. th' = th + Ts * w + 2 * pi * of_int k) \<and> - pi \<le> th' \<and> th' < pi) \<and>
   (tick qp it s = Inr (Continue s') \<longrightarrow>
      robot_state s' = integrate (robot_state s) (current_input s') \<and>
      input_history s' ! it = current_input s')"
proof -
  have t: "tick qp it s = Inr (Continue s') \<longrightarrow>
      robot_state s' = integrate (robot_state s) (current_input s') \<and>
      input_history s' ! it = current_input s'"
    using tick_heading(2,4,5) [of qp it s s'] by simp
  have "\<exists>th'. at2 (integrate (Fin x, Fin y, Fin th) (Fin vx, Fin vy, Fin w)) = Fin th' \<and>
          (\<exists>k::int. th' = th + Ts * w + 2 * pi * of_int k) \<and> - pi \<le> th' \<and> th' < pi"
    using wrap_range [of "th + Ts * w"] wrap_shift [of "th + Ts * w"]
    by (simp add: integrate_Fin)
  with t show ?thesis by (simp add: integrate_Fin)
qed

theorem euler_step_wrapped_heading_witness:
  "\<exists>s'. tick (\<lambda>P q G h. (3 / 100, 4 / 100)) 0
             (init_sim\<lparr>robot_state := (Fin (- 2), Fin (- (1 / 2)), Fin 20)\<rparr>)
           = Inr (Continue s') \<and>
        robot_state s' = integrate (Fin (- 2), Fin (- (1 / 2)), Fin 20) (current_input s') \<and>
        current_input s' = (Fin (3 / 10), Fin (4 / 10), Fin 0) \<and>
        at0 (robot_state s') = Fin (- 2 + Ts * (3 / 10)) \<and>
        (\<exists>th'. at2 (robot_state s') = Fin th' \<and> - pi \<le> th' \<and> th' < pi)"
  using tick_example [of 20]
    euler_step_wrapped_heading [of "- 2" "- (1 / 2)" 20 "3 / 10" "4 / 10" 0
      "\<lambda>P q G h. (3 / 100, 4 / 100)" 0
      "init_sim\<lparr>robot_state := (Fin (- 2), Fin (- (1 / 2)), Fin 20)\<rparr>"]
  by auto

text \<open>
  C2 as stated fails at the end point: from the heading \<open>pi\<close> and the angular rate \<open>0\<close>
  the update gives \<open>-pi\<close>, which is outside \<open>(-pi, pi]\<close>.
\<close>

theorem heading_interval_counterexample:
  "at2 (integrate (Fin (- 2), Fin (- (1 / 2)), Fin pi) (Fin (3 / 10), Fin (4 / 10), Fin 0))
     = Fin (- pi) \<and>
   \<not> (- pi < (- pi :: real)) \<and>
   (case tick (\<lambda>P q G h. (3 / 100, 4 / 100)) 0
           (init_sim\<lparr>robot_state := (Fin (- 2), Fin (- (1 / 2)), Fin pi)\<rparr>) of
      Inr (Continue s') \<Rightarrow> at2 (robot_state s')
    | _ \<Rightarrow> Fin 0) = Fin (- pi)"
  using tick_example [of pi] wrap_pi by (simp add: integrate_Fin)

text \<open>
  C3. At a finite position the constraint handed to the solver is \<open>H = -2 (p - o)\<close> and
  \<open>b = gamma (|p - o|\<^sup>2 - d_safe\<^sup>2)\<close>, built from the current position alone: two solvers
  that agree on the problem with this \<open>H\<close> and this \<open>b\<close> give the same tick.
\<close>

theorem constraint_builder_linear:
  "H_mat (Fin x, Fin y, th) =
     (Fin (- 2 * (x - at0 obstacle_state)), Fin (- 2 * (y - at1 obstacle_state))) \<and>
   b_mat (Fin x, Fin y, th) =
     Fin (gamma * ((sqrt ((x - at0 obstacle_state)\<^sup>2 + (y - at1 obstacle_state)\<^sup>2))\<^sup>2
                   - d_safe\<^sup>2)) \<and>
   b_mat (Fin x, Fin y, th) = Fin (gamma * barrier x y) \<and>
   (robot_state s = (Fin x, Fin y, th) \<and>
    qp Q_mat (c_mat (take2 (u_gtg (Fin x, Fin y, th))))
       (Fin (- 2 * (x - at0 obstacle_state)), Fin (- 2 * (y - at1 obstacle_state)))
       (Fin (gamma * ((sqrt ((x - at0 obstacle_state)\<^sup>2 + (y - at1 obstacle_state)\<^sup>2))\<^sup>2
                      - d_safe\<^sup>2)))
    = qp' Q_mat (c_mat (take2 (u_gtg (Fin x, Fin y, th))))
       (Fin (- 2 * (x - at0 obstacle_state)), Fin (- 2 * (y - at1 obstacle_state)))
       (Fin (gamma * ((sqrt ((x - at0 obstacle_state)\<^sup>2 + (y - at1 obstacle_state)\<^sup>2))\<^sup>2
                      - d_safe\<^sup>2)))
    \<longrightarrow> tick qp it s = tick qp' it s)"
proof -
  have H: "H_mat (Fin x, Fin y, th) =
     (Fin (- 2 * (x - at0 obstacle_state)), Fin (- 2 * (y - at1 obstacle_state)))"
    by (rule H_mat_Fin)
  have b: "b_mat (Fin x, Fin y, th) =
     Fin (gamma * ((sqrt ((x - at0 obstacle_state)\<^sup>2 + (y - at1 obstacle_state)\<^sup>2))\<^sup>2
                   - d_safe\<^sup>2))"
    by (simp add: b_mat_Fin)
  have c: "b_mat (Fin x, Fin y, th) = Fin (gamma * barrier x y)"
    by (simp add: b_mat_Fin barrier_eq)
  have "robot_state s = (Fin x, Fin y, th) \<and>
      qp Q_mat (c_mat (take2 (u_gtg (Fin x, Fin y, th)))) (H_mat (Fin x, Fin y, th))
         (b_mat (Fin x, Fin y, th))
      = qp' Q_mat (c_mat (take2 (u_gtg (Fin x, Fin y, th)))) (H_mat (Fin x, Fin y, th))
         (b_mat (Fin x, Fin y, th))
      \<longrightarrow> tick qp it s = tick qp' it s"
    by (auto simp: sol_def intro: tick_solver_cong)
  then show ?thesis
    unfolding H [symmetric] b [symmetric] using c by simp
qed

theorem constraint_builder_linear_witness:
  "robot_state init_sim = (Fin (- 2), Fin (- (1 / 2)), Fin 0) \<and>
   H_mat (Fin (- 2), Fin (- (1 / 2)), Fin 0) = (Fin 4, Fin 1) \<and>
   tick (\<lambda>P q G h. (3 / 100, 4 / 100)) 0 init_sim =
   tick (\<lambda>P q G h. if G = (Fin 4, Fin 1) \<and> h = Fin (10 * (17 / 4 - (711 / 1000)\<^sup>2))
                    then (3 / 100, 4 / 100) else (1, 0)) 0 init_sim"
  using constraint_builder_linear [of "- 2" "- (1 / 2)" "Fin 0" init_sim
      "\<lambda>P q G h. (3 / 100, 4 / 100)"
      "\<lambda>P q G h. if G = (Fin 4, Fin 1) \<and> h = Fin (10 * (17 / 4 - (711 / 1000)\<^sup>2))
                    then (3 / 100, 4 / 100) else (1, 0)" 0]
  by (simp add: init_state_def obstacle_state_def gamma_def d_safe_def robot_radius_def
      power2_eq_square)

text \<open>
  C5 on the code. At the first tick of the run the row written to \<open>h_history\<close> is the
  constraint row \<open>H = -2 (p - o) = (4, 1)\<close>; the barrier value there is
  \<open>h(p) = 4.25 - 0.711\<^sup>2 = 3.744479\<close>, which is neither component.
\<close>

theorem h_history_holds_constraint_row:
  "(case tick (\<lambda>P q G h. (3 / 100, 4 / 100)) 0 init_sim of
      Inr (Continue s') \<Rightarrow> h_history s' ! 0
    | _ \<Rightarrow> (Fin 0, Fin 0)) = (Fin 4, Fin 1) \<and>
   H_mat (array init_state) = (Fin 4, Fin 1) \<and>
   barrier (at0 init_state) (at1 init_state) = 3744479 / 1000000"
proof -
  have H: "H_mat (array init_state) = (Fin 4, Fin 1)"
    by (simp add: array_init H_mat_Fin obstacle_state_def)
  have b: "barrier (at0 init_state) (at1 init_state) = 3744479 / 1000000"
    using barrier_init by (simp add: init_state_def)
  from tick_example [of 0] show ?thesis
    using sim_iter_pos H b by (simp add: init_sim_start)
qed

text \<open>
  C6, as amended. When the planar distance to the goal is a number below \<open>0.005\<close> the
  tick breaks and the loop returns normally; the state and the input are not changed and
  \<open>input_history\<close>, \<open>error_history\<close> and \<open>h_history\<close> receive nothing, but
  \<open>state_history\<close> and \<open>goal_history\<close> have already received their row for this tick.
\<close>

theorem break_keeps_state_and_goal_rows:
  assumes "it < length (state_history s)" "it < length (goal_history s)"
    and "error_norm (robot_state s) = Fin r" "r < 0.005"
  shows "\<exists>s'. tick qp it s = Inr (Break s') \<and> iterate qp it (Suc n) s = Inr s' \<and>
              robot_state s' = robot_state s \<and> current_input s' = current_input s \<and>
              input_history s' = input_history s \<and> error_history s' = error_history s \<and>
              h_history s' = h_history s \<and>
              state_history s' = (state_history s)[it := robot_state s] \<and>
              goal_history s' = (goal_history s)[it := array desired_state]"
proof -
  from assms(3,4) have "\<not> fge (error_norm (robot_state s)) (Fin 0.005)" by simp
  from tick_goal [OF assms(1,2) this, of qp] show ?thesis by simp
qed

theorem break_keeps_state_and_goal_rows_witness:
  "error_norm (robot_state (init_sim\<lparr>robot_state := array desired_state\<rparr>)) = Fin 0 \<and>
   (0 :: real) < 0.005 \<and>
   (\<exists>s'. tick (\<lambda>P q G h. (0, 0)) 0 (init_sim\<lparr>robot_state := array desired_state\<rparr>)
            = Inr (Break s') \<and>
         iterate (\<lambda>P q G h. (0, 0)) 0 (Suc 0) (init_sim\<lparr>robot_state := array desired_state\<rparr>)
            = Inr s' \<and>
         input_history s' = input_history init_sim \<and>
         h_history s' = h_history init_sim \<and>
         state_history s' = (state_history init_sim)[0 := array desired_state])"
  using break_keeps_state_and_goal_rows
    [of 0 "init_sim\<lparr>robot_state := array desired_state\<rparr>" 0 "\<lambda>P q G h. (0, 0)" 0]
    sim_iter_pos
  by (auto simp: error_norm_goal)

text \<open>
  C6 as stated fails: with the robot at the goal \<open>(2, 1, 0)\<close> the tick breaks, and row
  \<open>0\<close> of \<open>state_history\<close> and of \<open>goal_history\<close>, zero before, is \<open>(2, 1, 0)\<close> after.
\<close>

theorem break_records_state_counterexample:
  "error_norm (Fin 2, Fin 1, Fin 0) = Fin 0 \<and> (0 :: real) < 0.005 \<and>
   state_history (init_sim\<lparr>robot_state := (Fin 2, Fin 1, Fin 0)\<rparr>) ! 0 = (Fin 0, Fin 0, Fin 0) \<and>
   (case tick (\<lambda>P q G h. (0, 0)) 0 (init_sim\<lparr>robot_state := (Fin 2, Fin 1, Fin 0)\<rparr>) of
      Inr (Break s') \<Rightarrow> state_history s' ! 0
    | _ \<Rightarrow> (Fin 0, Fin 0, Fin 0)) = (Fin 2, Fin 1, Fin 0) \<and>
   (case tick (\<lambda>P q G h. (0, 0)) 0 (init_sim\<lparr>robot_state := (Fin 2, Fin 1, Fin 0)\<rparr>) of
      Inr (Break s') \<Rightarrow> goal_history s' ! 0
    | _ \<Rightarrow> (Fin 0, Fin 0, Fin 0)) = (Fin 2, Fin 1, Fin 0)"
proof -
  have n: "error_norm (Fin 2, Fin 1, Fin 0) = Fin 0"
    using error_norm_goal by (simp add: desired_state_def)
  then have e: "\<not> fge (error_norm (robot_state (init_sim\<lparr>robot_state := (Fin 2, Fin 1, Fin 0)\<rparr>)))
                      (Fin 0.005)"
    by simp
  have z: "state_history init_sim ! 0 = (Fin 0, Fin 0, Fin 0)"
    using sim_iter_pos by (simp add: init_sim_def)
  from tick_goal [of 0 "init_sim\<lparr>robot_state := (Fin 2, Fin 1, Fin 0)\<rparr>" "\<lambda>P q G h. (0, 0)",
      OF _ _ e]
  show ?thesis
    using sim_iter_pos n z by (simp add: desired_state_def)
qed

text \<open>
  C7, as amended. At a finite position the solver is called with \<open>c = -2 K(r) e\<close>, where
  \<open>e\<close> is the planar error, \<open>r\<close> its norm and
  \<open>K(r) = v_trans_max (1 - exp (- beta r)) / (r + 1e-10)\<close> is the value of \<open>K_g\<close>. The
  nominal speed \<open>K(r) r\<close> tends to \<open>v_trans_max\<close> as \<open>r\<close> grows, while the gain itself
  tends to \<open>0\<close>; and the gain tends to \<open>0\<close> as \<open>r\<close> tends to \<open>0\<close>, because of the
  constant in the divisor: \<open>beta * v_trans_max\<close> is the limit of the gain without it.
\<close>

theorem nominal_velocity_gain:
  "sol qp (Fin x, Fin y, th) =
     qp Q_mat
        (Fin (- 2 * (gain (sqrt ((at0 desired_state - x)\<^sup>2 + (at1 desired_state - y)\<^sup>2))
                      * (at0 desired_state - x))),
         Fin (- 2 * (gain (sqrt ((at0 desired_state - x)\<^sup>2 + (at1 desired_state - y)\<^sup>2))
                      * (at1 desired_state - y))))
        (H_mat (Fin x, Fin y, th)) (b_mat (Fin x, Fin y, th)) \<and>
   (0 \<le> r \<longrightarrow> K_g (Fin r) = Fin (gain r)) \<and>
   gain r = v_trans_max * (1 - exp (- beta * r)) / (r + 1 / 10 ^ 10) \<and>
   ((\<lambda>r. gain r * r) \<longlongrightarrow> v_trans_max) at_top \<and>
   (gain \<longlongrightarrow> 0) at_top \<and>
   (gain \<longlongrightarrow> 0) (at_right 0) \<and>
   ((\<lambda>r. v_trans_max * (1 - exp (- beta * r)) / r) \<longlongrightarrow> beta * v_trans_max) (at_right 0)"
proof -
  have a: "sol qp (Fin x, Fin y, th) =
     qp Q_mat
        (Fin (- 2 * (gain (sqrt ((at0 desired_state - x)\<^sup>2 + (at1 desired_state - y)\<^sup>2))
                      * (at0 desired_state - x))),
         Fin (- 2 * (gain (sqrt ((at0 desired_state - x)\<^sup>2 + (at1 desired_state - y)\<^sup>2))
                      * (at1 desired_state - y))))
        (H_mat (Fin x, Fin y, th)) (b_mat (Fin x, Fin y, th))"
    unfolding sol_def take2_u_gtg_Fin by (simp add: c_mat_def)
  have b: "0 \<le> r \<longrightarrow> K_g (Fin r) = Fin (gain r)"
    using K_g_Fin by blast
  have c: "gain r = v_trans_max * (1 - exp (- beta * r)) / (r + 1 / 10 ^ 10)"
    by (simp only: gain_def)
  from a b c show ?thesis
    using speed_tendsto_v_trans_max gain_tendsto_zero_at_top gain_tendsto_zero_at_zero
      unregularised_gain_limit
    by blast
qed

theorem nominal_velocity_gain_witness:
  "sol (\<lambda>P q G h. (3 / 100, 4 / 100)) (Fin (- 2), Fin (- (1 / 2)), Fin 0) = (3 / 100, 4 / 100) \<and>
   (0 :: real) \<le> 1 \<and> K_g (Fin 1) = Fin (gain 1) \<and>
   (gain \<longlongrightarrow> 0) at_top"
  using nominal_velocity_gain [of "\<lambda>P q G h. (3 / 100, 4 / 100)" "- 2" "- (1 / 2)" "Fin 0" 1]
  by simp

text \<open>
  C7 as stated fails in both limits. At \<open>r = 1000\<close> the program's gain is at most
  \<open>0.0005\<close>, a thousandth of \<open>v_trans_max\<close>, and the gain does not tend to
  \<open>v_trans_max\<close> at infinity; at \<open>r = 0\<close> the program's gain is \<open>0\<close>, and the gain does
  not tend to \<open>beta * v_trans_max = 2.5\<close> at \<open>0\<close>.
\<close>

theorem gain_limits_counterexample:
  "K_g (Fin 1000) = Fin (gain 1000) \<and> gain 1000 \<le> 1 / 2000 \<and> v_trans_max = 1 / 2 \<and>
   \<not> (gain \<longlongrightarrow> v_trans_max) at_top \<and>
   K_g (Fin 0) = Fin 0 \<and> beta * v_trans_max = 5 / 2 \<and>
   \<not> (gain \<longlongrightarrow> beta * v_trans_max) (at_right 0)"
proof -
  have a: "K_g (Fin 1000) = Fin (gain 1000)" by (rule K_g_Fin) simp
  have b: "gain 1000 \<le> 1 / 2000"
    using gain_le [of 1000] by (simp add: v_trans_max_def)
  have c: "K_g (Fin 0) = Fin 0"
    using K_g_Fin [of 0] by (simp add: gain_def)
  from a b c gain_not_saturating gain_not_beta_v show ?thesis
    by (simp add: v_trans_max_def beta_def)
qed



text \<open>
  C9. The angular rate of the input is \<open>0\<close> on every tick, and over the run from the
  initial state the heading stays the initial heading: after any number of ticks the
  heading of the state, and of every row of \<open>state_history\<close>, is that of \<open>init_state\<close>,
  and every row of \<open>input_history\<close> has angular rate \<open>0\<close>. The whole run returns, for
  every solver, with these histories.
\<close>

theorem omega_zero_heading_constant:
  "(tick qp it s = Inr (Continue s') \<longrightarrow>
      at2 (current_input s') = Fin 0 \<and> at2 (input_history s' ! it) = Fin 0) \<and>
   (iterate qp 0 n init_sim = Inr s'' \<longrightarrow>
      at2 (robot_state s'') = Fin (at2 init_state) \<and> at2 (current_input s'') = Fin 0 \<and>
      (\<forall>r\<in>set (input_history s''). at2 r = Fin 0) \<and>
      (\<forall>r\<in>set (state_history s''). at2 r = Fin (at2 init_state))) \<and>
   (\<exists>sh gh ih hh. simulate_control qp = Inr (sh, gh, ih, hh) \<and>
      (\<forall>r\<in>set ih. at2 r = Fin 0) \<and> (\<forall>r\<in>set sh. at2 r = Fin (at2 init_state)))"
proof -
  have a: "at2 (current_input s') = Fin 0 \<and> at2 (input_history s' ! it) = Fin 0"
    if t: "tick qp it s = Inr (Continue s')"
    using tick_heading(1,2,5) [OF t] by simp
  have b: "at2 (robot_state s1) = Fin (at2 init_state) \<and> at2 (current_input s1) = Fin 0 \<and>
      (\<forall>r\<in>set (input_history s1). at2 r = Fin 0) \<and>
      (\<forall>r\<in>set (state_history s1). at2 r = Fin (at2 init_state))"
    if r: "iterate qp 0 k init_sim = Inr s1" for s1 k
  proof -
    have "at2 (robot_state s1) = Fin 0 \<and> at2 (current_input s1) = Fin 0 \<and>
         (\<forall>r\<in>set (input_history s1). at2 r = Fin 0) \<and>
         (\<forall>r\<in>set (state_history s1). at2 r = Fin 0)"
      using r
    proof (rule iterate_heading)
      show "at2 (robot_state init_sim) = Fin 0" by (simp add: array_init)
      show "- pi \<le> 0" "(0 :: real) < pi" by simp_all
      show "at2 (current_input init_sim) = Fin 0" by simp
    qed (rule init_sim_rows)+
    then show ?thesis by (simp add: init_state_def)
  qed
  have c: "\<exists>sh gh ih hh. simulate_control qp = Inr (sh, gh, ih, hh) \<and>
         (\<forall>r\<in>set ih. at2 r = Fin 0) \<and> (\<forall>r\<in>set sh. at2 r = Fin (at2 init_state))"
  proof -
    have "\<exists>s1. iterate qp 0 sim_iter init_sim = Inr s1"
      by (rule iterate_total) simp_all
    then obtain s1 where s1: "iterate qp 0 sim_iter init_sim = Inr s1" ..
    from b [OF s1] show ?thesis by (simp add: simulate_control_def s1)
  qed
  from a have a': "tick qp it s = Inr (Continue s') \<longrightarrow>
      at2 (current_input s') = Fin 0 \<and> at2 (input_history s' ! it) = Fin 0" by (rule impI)
  from b [of n s''] have b': "iterate qp 0 n init_sim = Inr s'' \<longrightarrow>
      at2 (robot_state s'') = Fin (at2 init_state) \<and> at2 (current_input s'') = Fin 0 \<and>
      (\<forall>r\<in>set (input_history s''). at2 r = Fin 0) \<and>
      (\<forall>r\<in>set (state_history s''). at2 r = Fin (at2 init_state))" by (rule impI)
  from a' b' c show ?thesis by (intro conjI)
qed

theorem omega_zero_heading_constant_witness:
  "(\<exists>s'. tick (\<lambda>P q G h. (3 / 100, 4 / 100)) 0 init_sim = Inr (Continue s') \<and>
         at2 (current_input s') = Fin 0 \<and> at2 (input_history s' ! 0) = Fin 0) \<and>
   (\<exists>s''. iterate (\<lambda>P q G h. (3 / 100, 4 / 100)) 0 (Suc 0) init_sim = Inr s'' \<and>
         at2 (robot_state s'') = Fin (at2 init_state) \<and> at2 (current_input s'') = Fin 0) \<and>
   (\<exists>sh gh ih hh. simulate_control (\<lambda>P q G h. (1, 0)) = Inr (sh, gh, ih, hh) \<and>
      (\<forall>r\<in>set ih. at2 r = Fin 0) \<and> (\<forall>r\<in>set sh. at2 r = Fin (at2 init_state)))"
proof -
  let ?qp = "\<lambda>(P::mat2) (q::fvec2) (G::fvec2) (h::fl). (3 / 100 :: real, 4 / 100 :: real)"
  obtain s' where t: "tick ?qp 0 init_sim = Inr (Continue s')"
    using tick_example [of 0] by (simp add: init_sim_start)
  then have i: "iterate ?qp 0 (Suc 0) init_sim = Inr s'" by simp
  note T = omega_zero_heading_constant [of ?qp 0 init_sim s' "Suc 0" s']
  from T t have a: "at2 (current_input s') = Fin 0 \<and> at2 (input_history s' ! 0) = Fin 0"
    by blast
  from T i have b: "at2 (robot_state s') = Fin (at2 init_state) \<and> at2 (current_input s') = Fin 0"
    by blast
  from omega_zero_heading_constant [of "\<lambda>P q G h. (1, 0)" 0 init_sim init_sim 0 init_sim,
      THEN conjunct2, THEN conjunct2]
  have c: "\<exists>sh gh ih hh. simulate_control (\<lambda>P q G h. (1, 0)) = Inr (sh, gh, ih, hh) \<and>
      (\<forall>r\<in>set ih. at2 r = Fin 0) \<and> (\<forall>r\<in>set sh. at2 r = Fin (at2 init_state))"
    .
  from t i a b c show ?thesis by blast
qed

text \<open>
  C10. On every tick that is not terminal and whose QP output has \<open>vy + 0 \<noteq> 0\<close>, the
  input recorded in \<open>input_history\<close> has translational speed exactly
  \<open>v_trans_max = 0.5\<close> and a strictly positive \<open>vy\<close>, whatever the QP output was. The
  witness takes a QP output that is slower than the limit and has a negative \<open>vy\<close>.
\<close>

theorem recorded_input_full_speed:
  assumes "it < length (state_history s)" "it < length (goal_history s)"
    and "it < length (input_history s)" "it < length (error_history s)"
    and "it < length (h_history s)"
    and "fge (error_norm (robot_state s)) (Fin 0.005)"
    and "snd (sol qp (robot_state s)) + 0 \<noteq> 0"
  shows "\<exists>s'. tick qp it s = Inr (Continue s') \<and>
              input_history s' ! it = current_input s' \<and>
              norm2 (take2 (input_history s' ! it)) = Fin v_trans_max \<and> v_trans_max = 0.5 \<and>
              (\<exists>vy. at1 (input_history s' ! it) = Fin vy \<and> 0 < vy)"
proof -
  from limiter_speed [OF assms(7), of "fst (sol qp (robot_state s))"]
  obtain ox oy where
    l: "limiter (qp_input qp (robot_state s)) = (Fin ox, Fin oy, Fin (min 0 (5 * Ts)))" and
    n: "norm2 (Fin ox, Fin oy) = Fin v_trans_max" and p: "0 < oy"
    by (auto simp: qp_input_def)
  note run = tick_run [OF assms(1-6), of qp]
  show ?thesis
    unfolding run l using assms(3) n p by (simp add: v_trans_max_def)
qed

theorem recorded_input_full_speed_witness:
  "fge (error_norm (robot_state init_sim)) (Fin 0.005) \<and>
   snd (sol (\<lambda>P q G h. (- (3 / 100), - (4 / 100))) (robot_state init_sim)) + 0 \<noteq> 0 \<and>
   norm2 (Fin (- (3 / 100)), Fin (- (4 / 100))) = Fin (5 / 100) \<and> 5 / 100 < v_trans_max \<and>
   (\<exists>s'. tick (\<lambda>P q G h. (- (3 / 100), - (4 / 100))) 0 init_sim = Inr (Continue s') \<and>
         input_history s' ! 0 = current_input s' \<and>
         norm2 (take2 (input_history s' ! 0)) = Fin v_trans_max \<and> v_trans_max = 0.5 \<and>
         (\<exists>vy. at1 (input_history s' ! 0) = Fin vy \<and> 0 < vy))"
proof -
  have e: "fge (error_norm (robot_state init_sim)) (Fin 0.005)"
    using error_norm_start [of "Fin 0"] by (simp add: array_init)
  have z: "snd (sol (\<lambda>P q G h. (- (3 / 100), - (4 / 100))) (robot_state init_sim)) + 0 \<noteq> 0"
    by (simp add: sol_def)
  have n: "norm2 (Fin (- (3 / 100)), Fin (- (4 / 100))) = Fin (5 / 100)"
    using norm2_small by simp
  have v: "5 / 100 < v_trans_max" by (simp add: v_trans_max_def)
  from recorded_input_full_speed [of 0 init_sim "\<lambda>P q G h. (- (3 / 100), - (4 / 100))", OF _ _ _ _ _ e z]
    sim_iter_pos
  have "\<exists>s'. tick (\<lambda>P q G h. (- (3 / 100), - (4 / 100))) 0 init_sim = Inr (Continue s') \<and>
         input_history s' ! 0 = current_input s' \<and>
         norm2 (take2 (input_history s' ! 0)) = Fin v_trans_max \<and> v_trans_max = 0.5 \<and>
         (\<exists>vy. at1 (input_history s' ! 0) = Fin vy \<and> 0 < vy)"
    by simp
  with e z n v show ?thesis by (intro conjI)
qed

end
